theory Spec2Isabelle
  imports Complex_Main "HOL-Library.Sublist" "HOL-Library.Log_Nat"
begin

section \<open>Data model of \<^verbatim>\<open>empathy_engine.py\<close>\<close>

text \<open>
  Python's unbounded integers are modelled as \<open>int\<close>, and a Python string as a list of
  characters, one \<open>char\<close> per code point (the code points 0..255, Latin-1).

  A Python float is a real number. The two arithmetic functions are modelled twice: once
  in exact real arithmetic, for the properties that rounding cannot change (bounds,
  comparisons, monotonicity, what the result depends on), and once with every operation
  rounded to IEEE 754 double precision (the definitions named \<open>..._ieee\<close>), for the
  properties that are decided by the last digit.
\<close>

record VoiceParameters =
  rate :: int
  pitch :: real
  volume :: real
  emphasis :: string

record EmotionResult =
  emotion :: string
  confidence :: real
  intensity :: real

text \<open>
  The exceptions the modelled code can raise, all of them subclasses of \<^verbatim>\<open>Exception\<close>;
  \<open>RuntimeError\<close> also stands for whatever the external classifier raises.
\<close>

datatype py_error =
  ZeroDivisionError | KeyError | IndexError | TypeError | AttributeError | RuntimeError

section \<open>Python built-ins used by the source\<close>

text \<open>\<^verbatim>\<open>int(x)\<close> on a float: truncation toward zero.\<close>

definition py_int :: "real \<Rightarrow> int" where
  "py_int x = (if 0 \<le> x then \<lfloor>x\<rfloor> else \<lceil>x\<rceil>)"

text \<open>\<^verbatim>\<open>a / b\<close>: true division, raising on a zero divisor.\<close>

definition truediv :: "real \<Rightarrow> real \<Rightarrow> py_error + real" where
  "truediv a b = (if b = 0 then Inl ZeroDivisionError else Inr (a / b))"

text \<open>\<^verbatim>\<open>d[k]\<close> on a dictionary literal, kept as an association list.\<close>

definition getitem :: "('k \<times> 'v) list \<Rightarrow> 'k \<Rightarrow> py_error + 'v" where
  "getitem d k = (case map_of d k of None \<Rightarrow> Inl KeyError | Some v \<Rightarrow> Inr v)"

text \<open>\<^verbatim>\<open>d.get(k, default)\<close>.\<close>

definition dict_get :: "('k \<times> 'v) list \<Rightarrow> 'k \<Rightarrow> 'v \<Rightarrow> 'v" where
  "dict_get d k dflt = (case map_of d k of None \<Rightarrow> dflt | Some v \<Rightarrow> v)"

text \<open>
  \<^verbatim>\<open>c.isupper()\<close> on one character and \<^verbatim>\<open>s.lower()\<close>, on the code points 0..255:
  the upper-case letters are A..Z and U+00C0..U+00DE without the multiplication sign
  U+00D7, and each has its lower-case partner 32 code points later.
\<close>

definition isupper :: "char \<Rightarrow> bool" where
  "isupper c = (let n = (of_char c :: nat)
                in (65 \<le> n \<and> n \<le> 90) \<or> (192 \<le> n \<and> n \<le> 222 \<and> n \<noteq> 215))"

definition lower_char :: "char \<Rightarrow> char" where
  "lower_char c = (if isupper c then char_of ((of_char c :: nat) + 32) else c)"

definition lower :: "string \<Rightarrow> string" where
  "lower s = map lower_char s"

text \<open>\<^verbatim>\<open>marker in text\<close> on strings is the contiguous-substring test \<^const>\<open>sublist\<close>.\<close>

section \<open>\<^verbatim>\<open>EmpathyEngine._apply_intensity_scaling\<close>\<close>

definition apply_intensity_scaling :: "VoiceParameters \<Rightarrow> real \<Rightarrow> VoiceParameters" where
  "apply_intensity_scaling base_params intens =
    (let scaled_params =
           \<lparr> rate = py_int (real_of_int (rate base_params)
                             + (real_of_int (rate base_params) - 200) * intens * 0.5),
             pitch = pitch base_params * (1 + intens * 0.5),
             volume = min 1.0 (volume base_params + (intens - 0.5) * 0.2),
             emphasis = (if intens > 0.6 then emphasis base_params else ''none'') \<rparr>;
         scaled_params = scaled_params\<lparr> rate := max 100 (min 300 (rate scaled_params)) \<rparr>;
         scaled_params = scaled_params\<lparr> pitch := max (-50) (min 50 (pitch scaled_params)) \<rparr>;
         scaled_params = scaled_params\<lparr> volume := max 0.1 (min 1.0 (volume scaled_params)) \<rparr>
     in scaled_params)"

text \<open>The bounds the specification states for a parameter set.\<close>

definition in_bounds :: "VoiceParameters \<Rightarrow> bool" where
  "in_bounds p \<longleftrightarrow>
     100 \<le> rate p \<and> rate p \<le> 300 \<and> - 50 \<le> pitch p \<and> pitch p \<le> 50 \<and>
     0.1 \<le> volume p \<and> volume p \<le> 1.0 \<and>
     emphasis p \<in> {''none'', ''moderate'', ''strong''}"

section \<open>\<^verbatim>\<open>EmotionDetector._calculate_intensity\<close>\<close>

text \<open>
  The dictionary literal \<^verbatim>\<open>intensity_markers\<close> of the function body, its three lists
  named after their keys.
\<close>

definition high_markers :: "string list" where
  "high_markers = [''!!!'', ''amazing'', ''incredible'', ''fantastic'', ''terrible'', ''awful'',
                   ''furious'', ''ecstatic'']"

definition medium_markers :: "string list" where
  "medium_markers = [''!'', ''great'', ''good'', ''bad'', ''upset'', ''happy'', ''sad'']"

definition low_markers :: "string list" where
  "low_markers = [''.'', ''okay'', ''fine'', ''alright'']"

definition intensity_markers :: "(string \<times> string list) list" where
  "intensity_markers =
     [(''high'', high_markers), (''medium'', medium_markers), (''low'', low_markers)]"

text \<open>
  One \<^verbatim>\<open>for marker in ...: if marker in text_lower: score = min(1.0, score + inc)\<close>
  loop, from the first marker of the list to the last.
\<close>

fun scan_markers :: "real \<Rightarrow> string \<Rightarrow> string list \<Rightarrow> real \<Rightarrow> real" where
  "scan_markers inc text_lower [] intensity_score = intensity_score"
| "scan_markers inc text_lower (marker # markers) intensity_score =
     scan_markers inc text_lower markers
       (if sublist marker text_lower then min 1.0 (intensity_score + inc) else intensity_score)"

text \<open>\<^verbatim>\<open>sum(1 for c in text if c.isupper()) / max(1, len(text))\<close>.\<close>

definition caps_ratio :: "string \<Rightarrow> py_error + real" where
  "caps_ratio text = truediv (real (length (filter isupper text))) (real (max 1 (length text)))"

text \<open>The last two statements of the function, once the caps ratio is known.\<close>

definition caps_and_clamp :: "real \<Rightarrow> real \<Rightarrow> real" where
  "caps_and_clamp ratio intensity_score =
    (let intensity_score =
           (if ratio > 0.3 then min 1.0 (intensity_score + 0.2) else intensity_score)
     in max 0.1 (min 1.0 intensity_score))"

definition calculate_intensity :: "string \<Rightarrow> real \<Rightarrow> py_error + real" where
  "calculate_intensity text base_confidence =
    (let text_lower = lower text;
         intensity_score = base_confidence
     in (case getitem intensity_markers ''high'' of
           Inl e \<Rightarrow> Inl e
         | Inr high \<Rightarrow>
            (let intensity_score = scan_markers 0.3 text_lower high intensity_score
             in (case getitem intensity_markers ''medium'' of
                   Inl e \<Rightarrow> Inl e
                 | Inr medium \<Rightarrow>
                    (let intensity_score = scan_markers 0.1 text_lower medium intensity_score
                     in (case caps_ratio text of
                           Inl e \<Rightarrow> Inl e
                         | Inr ratio \<Rightarrow> Inr (caps_and_clamp ratio intensity_score)))))))"

text \<open>
  The vocabulary in which the specification describes the estimate: the markers of a list
  that occur in the lower-cased text, and whether the caps bonus applies.
\<close>

definition matched :: "string list \<Rightarrow> string \<Rightarrow> string set" where
  "matched markers text = {m \<in> set markers. sublist m (lower text)}"

definition caps_bonus :: "string \<Rightarrow> bool" where
  "caps_bonus text \<longleftrightarrow>
     real (length (filter isupper text)) / real (max 1 (length text)) > 0.3"


text \<open>
  The function body with its two list literals as parameters, checked in the order given:
  the same loops over another enumeration of the markers.
\<close>

definition estimate_with :: "string list \<Rightarrow> string list \<Rightarrow> string \<Rightarrow> real \<Rightarrow> py_error + real" where
  "estimate_with high medium text base_confidence =
    (let text_lower = lower text;
         intensity_score = scan_markers 0.3 text_lower high base_confidence;
         intensity_score = scan_markers 0.1 text_lower medium intensity_score
     in (case caps_ratio text of
           Inl e \<Rightarrow> Inl e
         | Inr ratio \<Rightarrow> Inr (caps_and_clamp ratio intensity_score)))"

section \<open>\<^verbatim>\<open>EmotionDetector._basic_sentiment_analysis\<close>\<close>

definition positive_words :: "string list" where
  "positive_words = [''good'', ''great'', ''excellent'', ''amazing'', ''wonderful'',
                     ''fantastic'', ''love'', ''happy'']"

definition negative_words :: "string list" where
  "negative_words = [''bad'', ''terrible'', ''awful'', ''hate'', ''sad'', ''angry'',
                     ''frustrated'', ''annoying'']"

text \<open>\<^verbatim>\<open>sum(1 for word in words if word in text_lower)\<close>.\<close>

definition count_present :: "string list \<Rightarrow> string \<Rightarrow> nat" where
  "count_present words text_lower = length (filter (\<lambda>word. sublist word text_lower) words)"

definition basic_sentiment_analysis :: "string \<Rightarrow> EmotionResult" where
  "basic_sentiment_analysis text =
    (let text_lower = lower text;
         pos_count = count_present positive_words text_lower;
         neg_count = count_present negative_words text_lower
     in if pos_count > neg_count then
          \<lparr> emotion = ''happy'', confidence = 0.7, intensity = 0.6 \<rparr>
        else if neg_count > pos_count then
          \<lparr> emotion = ''angry'', confidence = 0.7, intensity = 0.6 \<rparr>
        else
          \<lparr> emotion = ''neutral'', confidence = 0.8, intensity = 0.3 \<rparr>)"

section \<open>\<^verbatim>\<open>EmpathyEngine._initialize_voice_mappings\<close> and the lookup of \<^verbatim>\<open>process_text\<close>\<close>

definition initialize_voice_mappings :: "(string \<times> VoiceParameters) list" where
  "initialize_voice_mappings =
     [(''happy'', \<lparr> rate = 220, pitch = 10, volume = 0.95, emphasis = ''strong'' \<rparr>),
      (''excited'', \<lparr> rate = 240, pitch = 15, volume = 1.0, emphasis = ''strong'' \<rparr>),
      (''sad'', \<lparr> rate = 160, pitch = - 10, volume = 0.7, emphasis = ''none'' \<rparr>),
      (''angry'', \<lparr> rate = 200, pitch = 5, volume = 0.9, emphasis = ''strong'' \<rparr>),
      (''worried'', \<lparr> rate = 180, pitch = - 5, volume = 0.8, emphasis = ''moderate'' \<rparr>),
      (''surprised'', \<lparr> rate = 210, pitch = 12, volume = 0.9, emphasis = ''strong'' \<rparr>),
      (''disgusted'', \<lparr> rate = 170, pitch = - 8, volume = 0.8, emphasis = ''none'' \<rparr>),
      (''neutral'', \<lparr> rate = 200, pitch = 0, volume = 0.85, emphasis = ''none'' \<rparr>)]"

text \<open>
  Step 2 of \<^verbatim>\<open>process_text\<close>:
  \<^verbatim>\<open>self.voice_mappings.get(emotion_result.emotion, self.voice_mappings['neutral'])\<close>.
  The default argument is evaluated first, and its subscript can raise.
\<close>

definition base_for :: "(string \<times> VoiceParameters) list \<Rightarrow> string \<Rightarrow> py_error + VoiceParameters" where
  "base_for voice_mappings emotion_label =
     (case getitem voice_mappings ''neutral'' of
        Inl e \<Rightarrow> Inl e
      | Inr dflt \<Rightarrow> Inr (dict_get voice_mappings emotion_label dflt))"

section \<open>\<^verbatim>\<open>EmotionDetector.__init__\<close> and \<^verbatim>\<open>EmotionDetector.detect_emotion\<close>\<close>

text \<open>
  The classifier is an external collaborator. What it returns is an arbitrary Python
  value; the values the accesses of \<^verbatim>\<open>detect_emotion\<close> can tell apart are modelled.
\<close>

datatype pyval =
  PNone | PNum real | PStr string | PList "pyval list" | PDict "(pyval \<times> pyval) list"

text \<open>
  \<^verbatim>\<open>v[0]\<close>: the first element of a list, the first character of a string, the value
  under the key 0 of a dictionary; other values are not subscriptable.
\<close>

fun subscript_zero :: "pyval \<Rightarrow> py_error + pyval" where
  "subscript_zero (PList []) = Inl IndexError"
| "subscript_zero (PList (x # xs)) = Inr x"
| "subscript_zero (PStr []) = Inl IndexError"
| "subscript_zero (PStr (c # cs)) = Inr (PStr [c])"
| "subscript_zero (PDict d) = getitem d (PNum 0)"
| "subscript_zero PNone = Inl TypeError"
| "subscript_zero (PNum x) = Inl TypeError"

text \<open>\<^verbatim>\<open>v['key']\<close>: only a dictionary takes a string subscript.\<close>

fun subscript_str :: "pyval \<Rightarrow> string \<Rightarrow> py_error + pyval" where
  "subscript_str (PDict d) k = getitem d (PStr k)"
| "subscript_str PNone k = Inl TypeError"
| "subscript_str (PNum x) k = Inl TypeError"
| "subscript_str (PStr s) k = Inl TypeError"
| "subscript_str (PList xs) k = Inl TypeError"

text \<open>\<^verbatim>\<open>v.lower()\<close>: only a string has the method.\<close>

fun method_lower :: "pyval \<Rightarrow> py_error + string" where
  "method_lower (PStr s) = Inr (lower s)"
| "method_lower PNone = Inl AttributeError"
| "method_lower (PNum x) = Inl AttributeError"
| "method_lower (PList xs) = Inl AttributeError"
| "method_lower (PDict d) = Inl AttributeError"

text \<open>
  \<^verbatim>\<open>self._calculate_intensity(text, confidence)\<close> on the value read from the classifier's
  output: a score that is not a number makes the arithmetic, or at the latest the final
  \<^verbatim>\<open>min(1.0, intensity_score)\<close>, raise a TypeError. The result pairs the score, as the
  number it is, with the intensity.
\<close>

fun calculate_intensity_of :: "string \<Rightarrow> pyval \<Rightarrow> py_error + (real \<times> real)" where
  "calculate_intensity_of text (PNum c) =
     (case calculate_intensity text c of Inl e \<Rightarrow> Inl e | Inr i \<Rightarrow> Inr (c, i))"
| "calculate_intensity_of text PNone = Inl TypeError"
| "calculate_intensity_of text (PStr s) = Inl TypeError"
| "calculate_intensity_of text (PList xs) = Inl TypeError"
| "calculate_intensity_of text (PDict d) = Inl TypeError"

text \<open>
  The detector object: \<^verbatim>\<open>self.classifier\<close> is the loaded pipeline or \<^verbatim>\<open>None\<close>;
  \<^verbatim>\<open>self.emotions_map\<close> is an attribute only when the load succeeded.
\<close>

record EmotionDetector =
  classifier :: "(string \<Rightarrow> py_error + pyval) option"
  emotions_map :: "(string \<times> string) list option"

text \<open>
  \<^verbatim>\<open>__init__\<close>, given the outcome of the \<^verbatim>\<open>pipeline(...)\<close> call: the loaded classifier,
  or the exception it raised.
\<close>

definition init_detector :: "py_error + (string \<Rightarrow> py_error + pyval) \<Rightarrow> EmotionDetector" where
  "init_detector loaded =
     (case loaded of
        Inr clf \<Rightarrow>
          \<lparr> classifier = Some clf,
            emotions_map = Some [(''joy'', ''happy''), (''sadness'', ''sad''),
                                 (''anger'', ''angry''), (''fear'', ''worried''),
                                 (''surprise'', ''surprised''), (''disgust'', ''disgusted''),
                                 (''neutral'', ''neutral'')] \<rparr>
      | Inl e \<Rightarrow> \<lparr> classifier = None, emotions_map = None \<rparr>)"

text \<open>Sequencing of statements that may raise: the first exception ends the block.\<close>

definition and_then :: "py_error + 'a \<Rightarrow> ('a \<Rightarrow> py_error + 'b) \<Rightarrow> py_error + 'b" where
  "and_then r f = (case r of Inl e \<Rightarrow> Inl e | Inr x \<Rightarrow> f x)"

text \<open>The body of the \<^verbatim>\<open>try\<close> block of \<^verbatim>\<open>detect_emotion\<close>.\<close>

definition classify_emotion ::
  "EmotionDetector \<Rightarrow> (string \<Rightarrow> py_error + pyval) \<Rightarrow> string \<Rightarrow> py_error + EmotionResult" where
  "classify_emotion self clf text =
     and_then (clf text) (\<lambda>result.
     and_then (subscript_zero result) (\<lambda>first.
     and_then (subscript_str first ''label'') (\<lambda>label.
     and_then (method_lower label) (\<lambda>emotion_raw.
     and_then (subscript_zero result) (\<lambda>first'.
     and_then (subscript_str first' ''score'') (\<lambda>score.
     and_then (case emotions_map self of None \<Rightarrow> Inl AttributeError | Some m \<Rightarrow> Inr m) (\<lambda>m.
     and_then (calculate_intensity_of text score) (\<lambda>(c, i).
       Inr \<lparr> emotion = dict_get m emotion_raw ''neutral'', confidence = c,
             intensity = i \<rparr>))))))))"

text \<open>
  \<^verbatim>\<open>detect_emotion\<close>: \<^verbatim>\<open>except Exception\<close> catches every exception of the block, and the
  function then falls through to the basic sentiment analysis.
\<close>

definition detect_emotion :: "EmotionDetector \<Rightarrow> string \<Rightarrow> py_error + EmotionResult" where
  "detect_emotion self text =
     (case classifier self of
        Some clf \<Rightarrow>
          (case classify_emotion self clf text of
             Inr r \<Rightarrow> Inr r
           | Inl e \<Rightarrow> Inr (basic_sentiment_analysis text))
      | None \<Rightarrow> Inr (basic_sentiment_analysis text))"

section \<open>IEEE 754 double precision\<close>

text \<open>
  A finite double is \<open>m * 2 ^ e\<close> with \<open>\<bar>m\<bar> < 2 ^ 53\<close> and \<open>e \<ge> -1074\<close>. An arithmetic
  operation on doubles returns the exact result rounded to the nearest double, a tie going
  to the even significand. \<open>floor_log2 x\<close> is the integer part of the binary logarithm of
  a positive \<open>x\<close>, so \<open>ulp_exponent x\<close> is the exponent of the last bit of the double next
  to \<open>x\<close> (from -1074 on, the subnormal range). Overflow to infinity is not modelled: the
  values computed from a parameter set and an intensity stay far below \<open>2 ^ 1024\<close>.
\<close>

definition floor_log2 :: "real \<Rightarrow> int" where
  "floor_log2 x = (if 1 \<le> x then bitlen \<lfloor>x\<rfloor> - 1 else - bitlen (\<lceil>1 / x\<rceil> - 1))"

definition pow2 :: "int \<Rightarrow> real" where
  "pow2 e = (if 0 \<le> e then 2 ^ nat e else 1 / 2 ^ nat (- e))"

definition round_half_even :: "real \<Rightarrow> int" where
  "round_half_even x =
     (let f = \<lfloor>x\<rfloor>; d = x - of_int f
      in if d < 1 / 2 then f else if 1 / 2 < d then f + 1 else if even f then f else f + 1)"

definition ulp_exponent :: "real \<Rightarrow> int" where
  "ulp_exponent x = max (- 1074) (floor_log2 \<bar>x\<bar> - 52)"

definition to_double :: "real \<Rightarrow> real" where
  "to_double x =
     (if x = 0 then 0
      else real_of_int (round_half_even (x / pow2 (ulp_exponent x))) * pow2 (ulp_exponent x))"

text \<open>The operations of Python on floats; a literal such as \<^verbatim>\<open>0.3\<close> is \<open>to_double 0.3\<close>.\<close>

definition d_add :: "real \<Rightarrow> real \<Rightarrow> real" where
  "d_add a b = to_double (a + b)"

definition d_sub :: "real \<Rightarrow> real \<Rightarrow> real" where
  "d_sub a b = to_double (a - b)"

definition d_mul :: "real \<Rightarrow> real \<Rightarrow> real" where
  "d_mul a b = to_double (a * b)"

definition d_div :: "real \<Rightarrow> real \<Rightarrow> py_error + real" where
  "d_div a b = (if b = 0 then Inl ZeroDivisionError else Inr (to_double (a / b)))"

section \<open>\<^verbatim>\<open>EmpathyEngine._apply_intensity_scaling\<close> in double arithmetic\<close>

text \<open>
  The float handed to \<^verbatim>\<open>int(...)\<close>:
  \<^verbatim>\<open>base_params.rate + (base_params.rate - 200) * intensity * 0.5\<close>, each integer converted
  to a float where it meets one, each operation rounded.
\<close>

definition scaled_rate :: "VoiceParameters \<Rightarrow> real \<Rightarrow> real" where
  "scaled_rate base_params intens =
     d_add (to_double (real_of_int (rate base_params)))
           (d_mul (d_mul (to_double (real_of_int (rate base_params - 200))) intens)
                  (to_double 0.5))"

definition apply_intensity_scaling_ieee :: "VoiceParameters \<Rightarrow> real \<Rightarrow> VoiceParameters" where
  "apply_intensity_scaling_ieee base_params intens =
    (let scaled_params =
           \<lparr> rate = py_int (scaled_rate base_params intens),
             pitch = d_mul (pitch base_params) (d_add 1 (d_mul intens (to_double 0.5))),
             volume = min 1.0 (d_add (volume base_params)
                                     (d_mul (d_sub intens (to_double 0.5)) (to_double 0.2))),
             emphasis = (if intens > to_double 0.6 then emphasis base_params else ''none'') \<rparr>;
         scaled_params = scaled_params\<lparr> rate := max 100 (min 300 (rate scaled_params)) \<rparr>;
         scaled_params = scaled_params\<lparr> pitch := max (-50) (min 50 (pitch scaled_params)) \<rparr>;
         scaled_params =
           scaled_params\<lparr> volume := max (to_double 0.1) (min 1.0 (volume scaled_params)) \<rparr>
     in scaled_params)"

section \<open>\<^verbatim>\<open>EmotionDetector._calculate_intensity\<close> in double arithmetic\<close>

fun scan_markers_ieee :: "real \<Rightarrow> string \<Rightarrow> string list \<Rightarrow> real \<Rightarrow> real" where
  "scan_markers_ieee inc text_lower [] intensity_score = intensity_score"
| "scan_markers_ieee inc text_lower (marker # markers) intensity_score =
     scan_markers_ieee inc text_lower markers
       (if sublist marker text_lower then min 1.0 (d_add intensity_score inc)
        else intensity_score)"

definition caps_ratio_ieee :: "string \<Rightarrow> py_error + real" where
  "caps_ratio_ieee text =
     d_div (real (length (filter isupper text))) (real (max 1 (length text)))"

definition caps_and_clamp_ieee :: "real \<Rightarrow> real \<Rightarrow> real" where
  "caps_and_clamp_ieee ratio intensity_score =
    (let intensity_score =
           (if ratio > to_double 0.3 then min 1.0 (d_add intensity_score (to_double 0.2))
            else intensity_score)
     in max (to_double 0.1) (min 1.0 intensity_score))"

definition calculate_intensity_ieee :: "string \<Rightarrow> real \<Rightarrow> py_error + real" where
  "calculate_intensity_ieee text base_confidence =
    (let text_lower = lower text;
         intensity_score = base_confidence
     in (case getitem intensity_markers ''high'' of
           Inl e \<Rightarrow> Inl e
         | Inr high \<Rightarrow>
            (let intensity_score =
                   scan_markers_ieee (to_double 0.3) text_lower high intensity_score
             in (case getitem intensity_markers ''medium'' of
                   Inl e \<Rightarrow> Inl e
                 | Inr medium \<Rightarrow>
                    (let intensity_score =
                           scan_markers_ieee (to_double 0.1) text_lower medium intensity_score
                     in (case caps_ratio_ieee text of
                           Inl e \<Rightarrow> Inl e
                         | Inr ratio \<Rightarrow> Inr (caps_and_clamp_ieee ratio intensity_score)))))))"






section \<open>The fallback heuristic counting occurrences\<close>

text \<open>
  The number of places of the text at which a word starts. No word of the two lists
  overlaps itself, so this is also what \<^verbatim>\<open>text.count(word)\<close> returns for them.
\<close>

fun occurrences :: "string \<Rightarrow> string \<Rightarrow> nat" where
  "occurrences word [] = (if word = [] then 1 else 0)"
| "occurrences word (c # cs) =
     (if prefix word (c # cs) then 1 else 0) + occurrences word cs"

definition occurrence_count :: "string list \<Rightarrow> string \<Rightarrow> nat" where
  "occurrence_count words text_lower = sum_list (map (\<lambda>word. occurrences word text_lower) words)"

text \<open>The heuristic as the specification words it, on the numbers of occurrences.\<close>

definition fallback_spec :: "string \<Rightarrow> EmotionResult" where
  "fallback_spec text =
    (let text_lower = lower text;
         pos_count = occurrence_count positive_words text_lower;
         neg_count = occurrence_count negative_words text_lower
     in if pos_count > neg_count then
          \<lparr> emotion = ''happy'', confidence = 0.7, intensity = 0.6 \<rparr>
        else if neg_count > pos_count then
          \<lparr> emotion = ''angry'', confidence = 0.7, intensity = 0.6 \<rparr>
        else
          \<lparr> emotion = ''neutral'', confidence = 0.8, intensity = 0.3 \<rparr>)"

section \<open>Auxiliary notions of the specification\<close>

text \<open>
  The rate as the specification words it: the scaled value clamped to [100,300] and
  rounded to the nearest integer.
\<close>

definition rate_spec :: "VoiceParameters \<Rightarrow> real \<Rightarrow> int" where
  "rate_spec b i =
     round (max 100 (min 300 (real_of_int (rate b) + (real_of_int (rate b) - 200) * i * 0.5)))"

text \<open>
  The sum of contributions before clamping, for arbitrary marker lists: 0.3 for every
  matched high marker, 0.1 for every matched medium marker, 0.2 for the caps bonus.
\<close>

definition total_score :: "string list \<Rightarrow> string list \<Rightarrow> string \<Rightarrow> real \<Rightarrow> real" where
  "total_score high medium text c =
     c + 0.3 * real (card (matched high text)) + 0.1 * real (card (matched medium text))
       + (if caps_bonus text then 0.2 else 0)"

section \<open>Double precision: the rounding\<close>

text \<open>\<open>floor_log2\<close> is the integer part of the binary logarithm.\<close>

lemma floor_log2_ge1:
  assumes "1 \<le> x"
  shows "bitlen \<lfloor>x\<rfloor> - 1 = \<lfloor>log 2 x\<rfloor>"
proof -
  let ?n = "\<lfloor>x\<rfloor>"
  have n: "0 < ?n" using assms by simp
  define k where "k = \<lfloor>log 2 (real_of_int ?n)\<rfloor>"
  have bl: "bitlen ?n - 1 = k"
    using n by (simp add: bitlen_alt_def k_def)
  have "0 \<le> log 2 (real_of_int ?n)" using n by simp
  then have k0: "0 \<le> k" by (simp add: k_def)
  have b: "2 powr (real_of_int k) \<le> real_of_int ?n \<and> real_of_int ?n < 2 powr (real_of_int (k + 1))"
    using floor_log_eq_powr_iff [of "real_of_int ?n" 2 k] n by (simp add: k_def)
  have p1: "2 powr (real_of_int k) = 2 ^ nat k"
    using k0 by (simp add: powr_realpow [symmetric])
  have p2: "2 powr (real_of_int (k + 1)) = 2 ^ nat (k + 1)"
    using k0 by (simp add: powr_realpow [symmetric])
  from b p2 have "?n < 2 ^ nat (k + 1)"
    by (metis of_int_less_iff of_int_numeral of_int_power)
  then have "?n + 1 \<le> 2 ^ nat (k + 1)" by simp
  then have "real_of_int (?n + 1) \<le> 2 ^ nat (k + 1)"
    by (metis of_int_le_iff of_int_numeral of_int_power)
  moreover have "x < real_of_int (?n + 1)" by linarith
  ultimately have up: "x < 2 powr (real_of_int (k + 1))" using p2 by linarith
  have "real_of_int ?n \<le> x" by simp
  with b have lo: "2 powr (real_of_int k) \<le> x" by linarith
  have "\<lfloor>log 2 x\<rfloor> = k"
    using floor_log_eq_powr_iff [of x 2 k] lo up assms by simp
  with bl show ?thesis by simp
qed

lemma floor_log2_lt1:
  assumes "0 < x" and "x < 1"
  shows "- bitlen (\<lceil>1 / x\<rceil> - 1) = \<lfloor>log 2 x\<rfloor>"
proof -
  let ?y = "1 / x"
  let ?m = "\<lceil>?y\<rceil>"
  have y1: "1 < ?y" using assms by simp
  then have m2: "2 \<le> ?m" by (simp add: le_ceiling_iff)
  define p where "p = \<lfloor>log 2 (real_of_int (?m - 1))\<rfloor>"
  have m1: "0 < ?m - 1" using m2 by simp
  have bl: "bitlen (?m - 1) = p + 1"
    using m1 by (simp add: bitlen_alt_def p_def)
  have "0 \<le> log 2 (real_of_int (?m - 1))" using m2 by simp
  then have p0: "0 \<le> p" by (simp add: p_def)
  have b: "2 powr (real_of_int p) \<le> real_of_int (?m - 1) \<and>
           real_of_int (?m - 1) < 2 powr (real_of_int (p + 1))"
    using floor_log_eq_powr_iff [of "real_of_int (?m - 1)" 2 p] m1 by (simp add: p_def)
  have p2: "2 powr (real_of_int (p + 1)) = 2 ^ nat (p + 1)"
    using p0 by (simp add: powr_realpow [symmetric])
  from b p2 have "?m - 1 < 2 ^ nat (p + 1)"
    by (metis of_int_less_iff of_int_numeral of_int_power)
  then have "?m \<le> 2 ^ nat (p + 1)" by simp
  then have "real_of_int ?m \<le> 2 ^ nat (p + 1)"
    by (metis of_int_le_iff of_int_numeral of_int_power)
  moreover have "?y \<le> real_of_int ?m" by simp
  ultimately have yup: "?y \<le> 2 powr (real_of_int (p + 1))" using p2 by linarith
  have "real_of_int (?m - 1) < ?y" by linarith
  with b have ylo: "2 powr (real_of_int p) < ?y" by linarith
  have xlo: "2 powr (real_of_int (- (p + 1))) \<le> x"
  proof -
    have "2 powr (real_of_int (- (p + 1))) = inverse (2 powr (real_of_int (p + 1)))"
      by (metis of_int_minus powr_minus)
    then have "2 powr (real_of_int (- (p + 1))) = 1 / 2 powr (real_of_int (p + 1))"
      by (simp add: divide_inverse)
    also have "\<dots> \<le> x"
      using yup assms(1) by (simp add: field_simps)
    finally show ?thesis .
  qed
  have xup: "x < 2 powr (real_of_int (- (p + 1) + 1))"
  proof -
    have "x < 1 / 2 powr (real_of_int p)"
      using ylo assms(1) by (simp add: field_simps)
    also have "\<dots> = 2 powr (real_of_int (- (p + 1) + 1))"
      by (simp add: powr_minus divide_inverse)
    finally show ?thesis .
  qed
  have "\<lfloor>log 2 x\<rfloor> = - (p + 1)"
    using floor_log_eq_powr_iff [of x 2 "- (p + 1)"] xlo xup assms by simp
  with bl show ?thesis by simp
qed

lemma floor_log2_correct: "0 < x \<Longrightarrow> floor_log2 x = \<lfloor>log 2 x\<rfloor>"
  using floor_log2_ge1 [of x] floor_log2_lt1 [of x]
  by (cases "1 \<le> x") (simp_all add: floor_log2_def)

text \<open>The float literals of the source.\<close>

lemma double_literals:
  "to_double 0.1 = 3602879701896397 / 2 ^ 55"
  "to_double 0.2 = 3602879701896397 / 2 ^ 54"
  "to_double 0.3 = 5404319552844595 / 2 ^ 54"
  "to_double 0.5 = 1 / 2"
  "to_double 0.6 = 5404319552844595 / 2 ^ 53"
  by code_simp+

text \<open>
  Ties go to the even significand, and below \<open>2 ^ -1022\<close> the spacing no longer shrinks.
\<close>

lemma double_rounding_examples:
  "to_double (2 ^ 53 + 1) = 2 ^ 53"
  "to_double (2 ^ 53 + 3) = 2 ^ 53 + 4"
  "to_double (5 / 2 ^ 1075) = 2 / 2 ^ 1074"
  "to_double (1 / 3) = 6004799503160661 / 2 ^ 54"
  by code_simp+

section \<open>Intensity scaling\<close>

text \<open>
  C1. For every base parameter set whose fields lie in the stated ranges and every
  intensity in [0,1], the scaled parameters again satisfy 100 <= rate <= 300,
  -50 <= pitch <= 50, 0.1 <= volume <= 1.0 and emphasis in {none, moderate, strong}.
\<close>

theorem scale_in_bounds:
  assumes "in_bounds b" and "0 \<le> i" and "i \<le> 1"
  shows "in_bounds (apply_intensity_scaling b i)"
  using assms by (simp add: in_bounds_def apply_intensity_scaling_def Let_def)

text \<open>The happy entry of the table at intensity 0.8.\<close>

theorem scale_in_bounds_witness:
  "in_bounds \<lparr> rate = 220, pitch = 10, volume = 0.95, emphasis = ''strong'' \<rparr> \<and>
   (0::real) \<le> 4 / 5 \<and> (4 / 5 :: real) \<le> 1 \<and>
   in_bounds (apply_intensity_scaling
                \<lparr> rate = 220, pitch = 10, volume = 0.95, emphasis = ''strong'' \<rparr> (4 / 5))"
proof -
  have h: "in_bounds \<lparr> rate = 220, pitch = 10, volume = 0.95, emphasis = ''strong'' \<rparr>"
    by (simp add: in_bounds_def)
  from scale_in_bounds [OF h, of "4 / 5"] h show ?thesis
    by simp
qed

text \<open>
  Truncation toward zero followed by the integer clamp is the real clamp followed by
  rounding down: below 100 both give 100, and from 100 on truncation is the floor.
\<close>

lemma py_int_clamp:
  "max 100 (min 300 (py_int x)) = \<lfloor>max 100 (min 300 x)\<rfloor>"
proof (cases "0 \<le> x")
  case True
  then show ?thesis
    by (simp add: py_int_def max_def min_def floor_le_iff le_floor_iff)
next
  case False
  then have "\<lceil>x\<rceil> \<le> 0" by (simp add: ceiling_le_iff)
  with False show ?thesis
    by (simp add: py_int_def max_def min_def)
qed

text \<open>
  C2 (as stated, refuted). The claim has the rate rounded to the nearest integer. For the
  surprised entry (rate 210) at intensity 0.75 every step is exact in doubles and the
  scaled value is 213.75: the code's \<^verbatim>\<open>int(...)\<close> yields 213, rounding to the nearest
  integer yields 214.
\<close>

theorem scale_rate_not_nearest_counterexample:
  "rate (apply_intensity_scaling_ieee
           \<lparr> rate = 210, pitch = 12, volume = to_double 0.9, emphasis = ''strong'' \<rparr> (3 / 4)) = 213 \<and>
   rate_spec \<lparr> rate = 210, pitch = 12, volume = to_double 0.9, emphasis = ''strong'' \<rparr> (3 / 4) = 214 \<and>
   rate (apply_intensity_scaling_ieee
           \<lparr> rate = 210, pitch = 12, volume = to_double 0.9, emphasis = ''strong'' \<rparr> (3 / 4)) \<noteq>
   rate_spec \<lparr> rate = 210, pitch = 12, volume = to_double 0.9, emphasis = ''strong'' \<rparr> (3 / 4)"
proof -
  have s: "scaled_rate \<lparr> rate = 210, pitch = 12, volume = to_double 0.9, emphasis = ''strong'' \<rparr> (3 / 4)
            = 855 / 4"
    by code_simp
  have r: "rate_spec \<lparr> rate = 210, pitch = 12, volume = to_double 0.9, emphasis = ''strong'' \<rparr> (3 / 4) = 214"
    by (simp add: rate_spec_def round_def)
  have p: "py_int (scaled_rate \<lparr> rate = 210, pitch = 12, volume = to_double 0.9, emphasis = ''strong'' \<rparr> (3 / 4)) = 213"
    unfolding s by (simp add: py_int_def)
  from p r show ?thesis
    by (simp add: apply_intensity_scaling_ieee_def)
qed

text \<open>
  C2 (amended). For every base parameter set and every intensity in [0,1], the rate of the
  scaled parameters is base.rate + (base.rate - 200) * i * 0.5 as double arithmetic
  computes it, clamped to [100,300] and rounded down to an integer: the fractional part is
  dropped, not rounded to the nearest integer.
\<close>

theorem scale_rate_rounds_down:
  assumes "0 \<le> i" and "i \<le> 1"
  shows "rate (apply_intensity_scaling_ieee b i) = \<lfloor>max 100 (min 300 (scaled_rate b i))\<rfloor>"
  using py_int_clamp [of "scaled_rate b i"]
  by (simp add: apply_intensity_scaling_ieee_def Let_def)

text \<open>
  The happy entry (rate 220) at the intensity \<^verbatim>\<open>0.7 - 0.4\<close>, the double
  0.29999999999999993: the exact value 222.99999999999999 rounds to the double 223.0, and
  the rate is 223.
\<close>

theorem scale_rate_rounds_down_witness:
  "(0::real) \<le> 2702159776422297 / 2 ^ 53 \<and> (2702159776422297 / 2 ^ 53 :: real) \<le> 1 \<and>
   to_double (7 / 10) - to_double (4 / 10) = 2702159776422297 / 2 ^ 53 \<and>
   scaled_rate \<lparr> rate = 220, pitch = 10, volume = to_double 0.95, emphasis = ''strong'' \<rparr>
      (2702159776422297 / 2 ^ 53) = 223 \<and>
   rate (apply_intensity_scaling_ieee
      \<lparr> rate = 220, pitch = 10, volume = to_double 0.95, emphasis = ''strong'' \<rparr>
      (2702159776422297 / 2 ^ 53)) = 223"
proof -
  have i: "to_double (7 / 10) - to_double (4 / 10) = 2702159776422297 / 2 ^ 53"
    by code_simp
  have s: "scaled_rate \<lparr> rate = 220, pitch = 10, volume = to_double 0.95, emphasis = ''strong'' \<rparr>
      (2702159776422297 / 2 ^ 53) = 223"
    by code_simp
  have h: "(0::real) \<le> 2702159776422297 / 2 ^ 53" "(2702159776422297 / 2 ^ 53 :: real) \<le> 1"
    by simp_all
  from scale_rate_rounds_down [OF h, of "\<lparr> rate = 220, pitch = 10, volume = to_double 0.95, emphasis = ''strong'' \<rparr>"]
  have "rate (apply_intensity_scaling_ieee
      \<lparr> rate = 220, pitch = 10, volume = to_double 0.95, emphasis = ''strong'' \<rparr>
      (2702159776422297 / 2 ^ 53)) = 223"
    unfolding s by simp
  with i s h show ?thesis by simp
qed

text \<open>
  C3. For every base parameter set and every intensity, the emphasis of the scaled
  parameters is the base emphasis when the intensity exceeds 0.6 and "none" when the
  intensity is at most 0.6, whatever the base emphasis.
\<close>

theorem scale_emphasis_gate:
  "(i > 0.6 \<longrightarrow> emphasis (apply_intensity_scaling b i) = emphasis b) \<and>
   (i \<le> 0.6 \<longrightarrow> emphasis (apply_intensity_scaling b i) = ''none'')"
  by (simp add: apply_intensity_scaling_def Let_def)

text \<open>The happy entry (emphasis strong) just above the threshold and exactly on it.\<close>

theorem scale_emphasis_gate_witness:
  "(7 / 10 :: real) > 0.6 \<and>
   emphasis (apply_intensity_scaling
     \<lparr> rate = 220, pitch = 10, volume = 0.95, emphasis = ''strong'' \<rparr> (7 / 10)) = ''strong'' \<and>
   (6 / 10 :: real) \<le> 0.6 \<and>
   emphasis (apply_intensity_scaling
     \<lparr> rate = 220, pitch = 10, volume = 0.95, emphasis = ''strong'' \<rparr> (6 / 10)) = ''none''"
  using scale_emphasis_gate
          [of "7 / 10" "\<lparr> rate = 220, pitch = 10, volume = 0.95, emphasis = ''strong'' \<rparr>"]
        scale_emphasis_gate
          [of "6 / 10" "\<lparr> rate = 220, pitch = 10, volume = 0.95, emphasis = ''strong'' \<rparr>"]
  by simp

section \<open>The intensity estimate\<close>

text \<open>
  Adding a non-negative amount under the ceiling 1.0 does not depend on whether the
  running score was capped before.
\<close>

lemma min_one_absorb: "0 \<le> c \<Longrightarrow> min 1 (min 1 x + c) = min (1::real) (x + c)"
  by (simp add: min_def)

text \<open>One loop, seen through the final ceiling: every matching marker contributes once.\<close>

lemma scan_markers_min:
  "0 \<le> inc \<Longrightarrow>
   min 1 (scan_markers inc t ms s) = min 1 (s + inc * real (length (filter (\<lambda>m. sublist m t) ms)))"
proof (induction ms arbitrary: s)
  case Nil
  then show ?case by simp
next
  case (Cons m ms)
  show ?case
  proof (cases "sublist m t")
    case True
    have "0 \<le> inc * real (length (filter (\<lambda>m. sublist m t) ms))"
      using Cons.prems by simp
    then show ?thesis
      using True Cons.IH [OF Cons.prems, of "min 1 (s + inc)"] min_one_absorb [of "inc * real (length (filter (\<lambda>m. sublist m t) ms))" "s + inc"]
      by (simp add: algebra_simps)
  next
    case False
    then show ?thesis using Cons.IH [OF Cons.prems, of s] by simp
  qed
qed

lemma count_matched:
  "distinct ms \<Longrightarrow> length (filter (\<lambda>m. sublist m (lower text)) ms) = card (matched ms text)"
  unfolding matched_def
  by (metis distinct_card distinct_filter set_filter)

lemma caps_ratio_returns:
  "caps_ratio text = Inr (real (length (filter isupper text)) / real (max 1 (length text)))"
  by (simp add: caps_ratio_def truediv_def)

lemma caps_and_clamp_eq:
  "caps_and_clamp ratio s = max 0.1 (min 1 (min 1 s + (if ratio > 0.3 then 0.2 else 0)))"
  by (simp add: caps_and_clamp_def min_def max_def)

lemma getitem_high: "getitem intensity_markers ''high'' = Inr high_markers"
  by (simp add: getitem_def intensity_markers_def)

lemma getitem_medium: "getitem intensity_markers ''medium'' = Inr medium_markers"
  by (simp add: getitem_def intensity_markers_def)

lemma calculate_intensity_estimate_with:
  "calculate_intensity text c = estimate_with high_markers medium_markers text c"
  by (simp add: calculate_intensity_def estimate_with_def getitem_high getitem_medium Let_def)

lemma estimate_with_closed:
  assumes "distinct high" and "distinct medium"
  shows "estimate_with high medium text c = Inr (max 0.1 (min 1 (total_score high medium text c)))"
proof -
  let ?t = "lower text"
  let ?k1 = "real (card (matched high text))"
  let ?k2 = "real (card (matched medium text))"
  let ?b = "if caps_bonus text then 0.2 else (0::real)"
  let ?s1 = "scan_markers 0.3 ?t high c"
  let ?s2 = "scan_markers 0.1 ?t medium ?s1"
  have s1: "min 1 ?s1 = min 1 (c + 0.3 * ?k1)"
    using scan_markers_min [of "0.3" "?t" high c] count_matched [OF assms(1), of "text"] by simp
  have "min 1 ?s2 = min 1 (?s1 + 0.1 * ?k2)"
    using scan_markers_min [of "0.1" "?t" medium "?s1"] count_matched [OF assms(2), of "text"] by simp
  also have "\<dots> = min 1 (min 1 ?s1 + 0.1 * ?k2)"
    using min_one_absorb [of "0.1 * ?k2" "?s1"] by simp
  also have "\<dots> = min 1 (c + 0.3 * ?k1 + 0.1 * ?k2)"
    using s1 min_one_absorb [of "0.1 * ?k2" "c + 0.3 * ?k1"] by simp
  finally have s2: "min 1 ?s2 = min 1 (c + 0.3 * ?k1 + 0.1 * ?k2)" .
  have "min 1 (min 1 ?s2 + ?b) = min 1 (c + 0.3 * ?k1 + 0.1 * ?k2 + ?b)"
    using s2 min_one_absorb [of "?b" "c + 0.3 * ?k1 + 0.1 * ?k2"] by simp
  then show ?thesis
    by (simp add: estimate_with_def caps_ratio_returns caps_and_clamp_eq caps_bonus_def
        total_score_def Let_def)
qed

lemma distinct_high: "distinct high_markers"
  by (simp add: high_markers_def)

lemma distinct_medium: "distinct medium_markers"
  by (simp add: medium_markers_def)


lemma clamp_bounds: "0.1 \<le> max 0.1 (min 1 x) \<and> max 0.1 (min 1 x) \<le> (1::real)"
  by (simp add: max_def min_def)

lemma clamp_mono: "x \<le> y \<Longrightarrow> max 0.1 (min 1 x) \<le> max 0.1 (min 1 (y::real))"
  by (simp add: max_def min_def)

lemma calculate_intensity_closed:
  "calculate_intensity text c =
     Inr (max 0.1 (min 1 (total_score high_markers medium_markers text c)))"
  by (simp add: calculate_intensity_estimate_with estimate_with_closed distinct_high distinct_medium)

lemma total_score_mono:
  assumes "matched high_markers t1 \<subseteq> matched high_markers t2"
    and "matched medium_markers t1 \<subseteq> matched medium_markers t2"
    and "caps_bonus t1 \<longrightarrow> caps_bonus t2"
  shows "total_score high_markers medium_markers t1 c \<le> total_score high_markers medium_markers t2 c"
proof -
  have fin: "finite (matched ms t)" for ms t by (simp add: matched_def)
  have "card (matched high_markers t1) \<le> card (matched high_markers t2)"
    using assms(1) fin by (simp add: card_mono)
  moreover have "card (matched medium_markers t1) \<le> card (matched medium_markers t2)"
    using assms(2) fin by (simp add: card_mono)
  ultimately show ?thesis using assms(3) by (simp add: total_score_def)
qed





text \<open>
  Five capitals at base confidence 0.4: the code adds the double 0.2 to the double 0.4 and
  returns 0.6000000000000001, above the emphasis threshold; exact arithmetic gives 3/5.
\<close>

lemma estimate_ieee_example:
  "calculate_intensity_ieee ''HELLO'' (to_double 0.4) = Inr (1351079888211149 / 2 ^ 51)"
  "calculate_intensity ''HELLO'' 0.4 = Inr (3 / 5)"
  by code_simp+




text \<open>
  C5. For every text, the empty string included, and every base confidence in [0,1], the
  estimate returns a value and raises nothing (the divisor of the caps ratio is at least
  1, so the division returns), the value lies in [0.1, 1.0], and with no high or medium
  marker matched and no caps bonus it is max(0.1, min(1.0, baseConfidence)).
\<close>

theorem estimate_safe:
  assumes "0 \<le> c" and "c \<le> 1"
  shows "\<exists>r q. calculate_intensity text c = Inr r \<and> caps_ratio text = Inr q \<and>
           0.1 \<le> r \<and> r \<le> 1 \<and>
           (matched high_markers text = {} \<and> matched medium_markers text = {} \<and>
            \<not> caps_bonus text \<longrightarrow> r = max 0.1 (min 1 c))"
proof -
  let ?r = "max 0.1 (min 1 (total_score high_markers medium_markers text c))"
  have "calculate_intensity text c = Inr ?r"
    by (rule calculate_intensity_closed)
  moreover have "0.1 \<le> ?r \<and> ?r \<le> 1"
    by (rule clamp_bounds)
  moreover have "?r = max 0.1 (min 1 c)"
    if "matched high_markers text = {}" "matched medium_markers text = {}" "\<not> caps_bonus text"
    using that by (simp add: total_score_def)
  ultimately show ?thesis
    using caps_ratio_returns [of "text"] by blast
qed

text \<open>The empty text at base confidence 0: the floor 0.1.\<close>

theorem estimate_safe_witness:
  "(0::real) \<le> 0 \<and> (0::real) \<le> 1 \<and>
   matched high_markers [] = {} \<and> matched medium_markers [] = {} \<and> \<not> caps_bonus [] \<and>
   calculate_intensity [] 0 = Inr (1 / 10) \<and> caps_ratio [] = Inr 0"
proof -
  have m: "matched high_markers [] = {} \<and> matched medium_markers [] = {} \<and> \<not> caps_bonus []"
    by code_simp
  have q: "caps_ratio [] = Inr 0"
    by (simp add: caps_ratio_def truediv_def)
  from estimate_safe [of 0 "[]"] m q show ?thesis
    by auto
qed

text \<open>
  C6. The estimate is monotone in the set of matched markers: when a second text matches
  a superset of the high and of the medium markers the first one matches, the caps bonus
  of the first also applies to the second, and the base confidence is the same, the
  estimate of the second is at least the estimate of the first.
\<close>

theorem estimate_monotone:
  assumes "matched high_markers t1 \<subseteq> matched high_markers t2"
    and "matched medium_markers t1 \<subseteq> matched medium_markers t2"
    and "caps_bonus t1 \<longrightarrow> caps_bonus t2"
  shows "\<exists>r1 r2. calculate_intensity t1 c = Inr r1 \<and> calculate_intensity t2 c = Inr r2 \<and> r1 \<le> r2"
  using clamp_mono [OF total_score_mono [OF assms, of c]]
  by (simp add: calculate_intensity_closed)

text \<open>A text with one medium marker, and one with a high and a further medium marker.\<close>

theorem estimate_monotone_witness:
  "matched high_markers ''good'' \<subseteq> matched high_markers ''good, amazing!'' \<and>
   matched medium_markers ''good'' \<subseteq> matched medium_markers ''good, amazing!'' \<and>
   \<not> caps_bonus ''good'' \<and>
   calculate_intensity ''good'' (3 / 10) = Inr (2 / 5) \<and>
   calculate_intensity ''good, amazing!'' (3 / 10) = Inr (4 / 5) \<and>
   (2 / 5 :: real) \<le> 4 / 5"
proof -
  have h1: "matched high_markers ''good'' \<subseteq> matched high_markers ''good, amazing!''"
    by code_simp
  have h2: "matched medium_markers ''good'' \<subseteq> matched medium_markers ''good, amazing!''"
    by code_simp
  have nb: "\<not> caps_bonus ''good''"
    by code_simp
  then have h3: "caps_bonus ''good'' \<longrightarrow> caps_bonus ''good, amazing!''"
    by simp
  have e1: "calculate_intensity ''good'' (3 / 10) = Inr (2 / 5)"
    by code_simp
  have e2: "calculate_intensity ''good, amazing!'' (3 / 10) = Inr (4 / 5)"
    by code_simp
  from estimate_monotone [OF h1 h2 h3, of "3 / 10"] e1 e2 h1 h2 nb show ?thesis
    by simp
qed

text \<open>
  C10. The low-intensity list (".", "okay", "fine", "alright") never affects the estimate:
  for every base confidence, two texts that match the same high and medium markers and
  agree on the caps bonus get the same estimate, also when one of them contains
  low-intensity markers and the other none.
\<close>

theorem low_markers_irrelevant:
  assumes "matched high_markers t1 = matched high_markers t2"
    and "matched medium_markers t1 = matched medium_markers t2"
    and "caps_bonus t1 = caps_bonus t2"
  shows "calculate_intensity t1 c = calculate_intensity t2 c"
  using assms by (simp add: calculate_intensity_closed total_score_def)

text \<open>A text with three low-intensity markers against a text with none.\<close>

theorem low_markers_irrelevant_witness:
  "matched high_markers ''okay. fine'' = matched high_markers ''hmm'' \<and>
   matched medium_markers ''okay. fine'' = matched medium_markers ''hmm'' \<and>
   caps_bonus ''okay. fine'' = caps_bonus ''hmm'' \<and>
   matched low_markers ''okay. fine'' = {''.'', ''okay'', ''fine''} \<and>
   matched low_markers ''hmm'' = {} \<and>
   calculate_intensity ''okay. fine'' (1 / 2) = Inr (1 / 2) \<and>
   calculate_intensity ''hmm'' (1 / 2) = Inr (1 / 2)"
proof -
  have h1: "matched high_markers ''okay. fine'' = matched high_markers ''hmm''"
    by code_simp
  have h2: "matched medium_markers ''okay. fine'' = matched medium_markers ''hmm''"
    by code_simp
  have h3: "caps_bonus ''okay. fine'' = caps_bonus ''hmm''"
    by code_simp
  have l1: "matched low_markers ''okay. fine'' = {''.'', ''okay'', ''fine''}"
    by code_simp
  have l2: "matched low_markers ''hmm'' = {}"
    by code_simp
  have e: "calculate_intensity ''hmm'' (1 / 2) = Inr (1 / 2)"
    by code_simp
  from low_markers_irrelevant [OF h1 h2 h3, of "1 / 2"] e h1 h2 h3 l1 l2 show ?thesis
    by simp
qed

section \<open>The base-parameter lookup\<close>

lemma distinct_keys: "distinct (map fst initialize_voice_mappings)"
  by (simp add: initialize_voice_mappings_def)

lemma getitem_neutral:
  "getitem initialize_voice_mappings ''neutral'' =
     Inr \<lparr> rate = 200, pitch = 0, volume = 0.85, emphasis = ''none'' \<rparr>"
  by (simp add: getitem_def initialize_voice_mappings_def)

text \<open>
  C7. For every string, the base-parameter lookup raises nothing; for one of the eight
  keys of the table it returns that key's entry, and for any other string it returns
  exactly the neutral entry (rate 200, pitch 0, volume 0.85, emphasis none).
\<close>

theorem base_for_total:
  "(\<exists>p. base_for initialize_voice_mappings e = Inr p) \<and>
   (\<forall>p. (e, p) \<in> set initialize_voice_mappings \<longrightarrow> base_for initialize_voice_mappings e = Inr p) \<and>
   (e \<notin> set (map fst initialize_voice_mappings) \<longrightarrow>
      base_for initialize_voice_mappings e =
        Inr \<lparr> rate = 200, pitch = 0, volume = 0.85, emphasis = ''none'' \<rparr>) \<and>
   map fst initialize_voice_mappings =
     [''happy'', ''excited'', ''sad'', ''angry'', ''worried'', ''surprised'', ''disgusted'', ''neutral'']"
proof -
  have 1: "base_for initialize_voice_mappings e = Inr p"
    if "(e, p) \<in> set initialize_voice_mappings" for p
    using that map_of_is_SomeI [OF distinct_keys that]
    by (simp add: base_for_def getitem_neutral dict_get_def)
  have 2: "base_for initialize_voice_mappings e =
        Inr \<lparr> rate = 200, pitch = 0, volume = 0.85, emphasis = ''none'' \<rparr>"
    if "e \<notin> set (map fst initialize_voice_mappings)"
  proof -
    from that have "map_of initialize_voice_mappings e = None"
      by (simp add: map_of_eq_None_iff)
    then show ?thesis by (simp add: base_for_def getitem_neutral dict_get_def)
  qed
  have 3: "\<exists>p. base_for initialize_voice_mappings e = Inr p"
    by (simp add: base_for_def getitem_neutral)
  have 4: "map fst initialize_voice_mappings =
     [''happy'', ''excited'', ''sad'', ''angry'', ''worried'', ''surprised'', ''disgusted'', ''neutral'']"
    by (simp add: initialize_voice_mappings_def)
  from 1 2 3 4 show ?thesis by blast
qed

text \<open>A key of the table and a string that is none.\<close>

theorem base_for_total_witness:
  "(''sad'', \<lparr> rate = 160, pitch = - 10, volume = 0.7, emphasis = ''none'' \<rparr>)
      \<in> set initialize_voice_mappings \<and>
   base_for initialize_voice_mappings ''sad'' =
      Inr \<lparr> rate = 160, pitch = - 10, volume = 0.7, emphasis = ''none'' \<rparr> \<and>
   ''bored'' \<notin> set (map fst initialize_voice_mappings) \<and>
   base_for initialize_voice_mappings ''bored'' =
      Inr \<lparr> rate = 200, pitch = 0, volume = 0.85, emphasis = ''none'' \<rparr>"
proof -
  have a: "(''sad'', \<lparr> rate = 160, pitch = - 10, volume = 0.7, emphasis = ''none'' \<rparr>)
      \<in> set initialize_voice_mappings"
    by (simp add: initialize_voice_mappings_def)
  have b: "''bored'' \<notin> set (map fst initialize_voice_mappings)"
    by (simp add: initialize_voice_mappings_def)
  from base_for_total [of "''sad''"] base_for_total [of "''bored''"] a b show ?thesis
    by blast
qed

section \<open>Emotion detection and its fallback\<close>

lemma distinct_positive: "distinct positive_words"
  by (simp add: positive_words_def)

lemma distinct_negative: "distinct negative_words"
  by (simp add: negative_words_def)

lemma count_present_card:
  "distinct ws \<Longrightarrow> count_present ws (lower t) = card (matched ws t)"
  by (simp add: count_present_def count_matched)

text \<open>
  C8 (as stated, refuted). The claim has the heuristic count occurrences. In
  "good good bad" the positive words occur twice and the negative words once, so on
  occurrences the result is happy/0.7/0.6; the code counts "good" once, finds one word of
  each list and returns neutral/0.8/0.3.
\<close>

theorem fallback_not_occurrences_counterexample:
  "occurrence_count positive_words (lower ''good good bad'') = 2 \<and>
   occurrence_count negative_words (lower ''good good bad'') = 1 \<and>
   fallback_spec ''good good bad'' = \<lparr> emotion = ''happy'', confidence = 0.7, intensity = 0.6 \<rparr> \<and>
   basic_sentiment_analysis ''good good bad'' =
     \<lparr> emotion = ''neutral'', confidence = 0.8, intensity = 0.3 \<rparr> \<and>
   basic_sentiment_analysis ''good good bad'' \<noteq> fallback_spec ''good good bad''"
proof -
  have a: "occurrence_count positive_words (lower ''good good bad'') = 2"
    by code_simp
  have b: "occurrence_count negative_words (lower ''good good bad'') = 1"
    by code_simp
  have c: "fallback_spec ''good good bad'' = \<lparr> emotion = ''happy'', confidence = 0.7, intensity = 0.6 \<rparr>"
    by code_simp
  have d: "basic_sentiment_analysis ''good good bad'' =
     \<lparr> emotion = ''neutral'', confidence = 0.8, intensity = 0.3 \<rparr>"
    by code_simp
  from a b c d show ?thesis by simp
qed

text \<open>
  C8 (amended). For every text, when the classifier is unavailable, detection returns the
  fallback heuristic's result. The heuristic counts, for the positive and for the negative
  word list, how many words of the list occur at least once in the lower-cased text (a
  word that occurs several times counts once), and returns exactly happy/0.7/0.6 when the
  positive count exceeds the negative one, angry/0.7/0.6 when the negative count exceeds
  the positive one, and neutral/0.8/0.3 otherwise. In particular
  "This is a great and wonderful day" yields happy/0.7/0.6 and
  "I hate this awful terrible mess" yields angry/0.7/0.6.
\<close>

theorem fallback_heuristic:
  "(classifier d = None \<longrightarrow> detect_emotion d t = Inr (basic_sentiment_analysis t)) \<and>
   (card (matched positive_words t) > card (matched negative_words t) \<longrightarrow>
      basic_sentiment_analysis t = \<lparr> emotion = ''happy'', confidence = 0.7, intensity = 0.6 \<rparr>) \<and>
   (card (matched negative_words t) > card (matched positive_words t) \<longrightarrow>
      basic_sentiment_analysis t = \<lparr> emotion = ''angry'', confidence = 0.7, intensity = 0.6 \<rparr>) \<and>
   (card (matched positive_words t) = card (matched negative_words t) \<longrightarrow>
      basic_sentiment_analysis t = \<lparr> emotion = ''neutral'', confidence = 0.8, intensity = 0.3 \<rparr>) \<and>
   basic_sentiment_analysis ''This is a great and wonderful day'' =
      \<lparr> emotion = ''happy'', confidence = 0.7, intensity = 0.6 \<rparr> \<and>
   basic_sentiment_analysis ''I hate this awful terrible mess'' =
      \<lparr> emotion = ''angry'', confidence = 0.7, intensity = 0.6 \<rparr>"
proof -
  have 1: "classifier d = None \<longrightarrow> detect_emotion d t = Inr (basic_sentiment_analysis t)"
    by (simp add: detect_emotion_def)
  have 2: "basic_sentiment_analysis t =
     (if card (matched positive_words t) > card (matched negative_words t)
      then \<lparr> emotion = ''happy'', confidence = 0.7, intensity = 0.6 \<rparr>
      else if card (matched negative_words t) > card (matched positive_words t)
      then \<lparr> emotion = ''angry'', confidence = 0.7, intensity = 0.6 \<rparr>
      else \<lparr> emotion = ''neutral'', confidence = 0.8, intensity = 0.3 \<rparr>)"
    by (simp add: basic_sentiment_analysis_def Let_def count_present_card distinct_positive
        distinct_negative)
  have 3: "basic_sentiment_analysis ''This is a great and wonderful day'' =
      \<lparr> emotion = ''happy'', confidence = 0.7, intensity = 0.6 \<rparr>"
    by code_simp
  have 4: "basic_sentiment_analysis ''I hate this awful terrible mess'' =
      \<lparr> emotion = ''angry'', confidence = 0.7, intensity = 0.6 \<rparr>"
    by code_simp
  from 1 2 3 4 show ?thesis by simp
qed

text \<open>The two texts of the specification, and a text with equal counts.\<close>

theorem fallback_heuristic_witness:
  "classifier (init_detector (Inl RuntimeError)) = None \<and>
   card (matched positive_words ''This is a great and wonderful day'') = 2 \<and>
   card (matched negative_words ''This is a great and wonderful day'') = 0 \<and>
   detect_emotion (init_detector (Inl RuntimeError)) ''This is a great and wonderful day'' =
     Inr \<lparr> emotion = ''happy'', confidence = 0.7, intensity = 0.6 \<rparr> \<and>
   card (matched positive_words ''I hate this awful terrible mess'') = 0 \<and>
   card (matched negative_words ''I hate this awful terrible mess'') = 3 \<and>
   basic_sentiment_analysis ''I hate this awful terrible mess'' =
     \<lparr> emotion = ''angry'', confidence = 0.7, intensity = 0.6 \<rparr> \<and>
   card (matched positive_words ''good good bad'') = 1 \<and>
   card (matched negative_words ''good good bad'') = 1 \<and>
   basic_sentiment_analysis ''good good bad'' =
     \<lparr> emotion = ''neutral'', confidence = 0.8, intensity = 0.3 \<rparr>"
proof -
  have n: "classifier (init_detector (Inl RuntimeError)) = None"
    by (simp add: init_detector_def)
  have p1: "card (matched positive_words ''This is a great and wonderful day'') = 2"
    by code_simp
  have n1: "card (matched negative_words ''This is a great and wonderful day'') = 0"
    by code_simp
  have p2: "card (matched positive_words ''I hate this awful terrible mess'') = 0"
    by code_simp
  have n2: "card (matched negative_words ''I hate this awful terrible mess'') = 3"
    by code_simp
  have p3: "card (matched positive_words ''good good bad'') = 1"
    by code_simp
  have n3: "card (matched negative_words ''good good bad'') = 1"
    by code_simp
  from fallback_heuristic [of "init_detector (Inl RuntimeError)" "''This is a great and wonderful day''"]
       fallback_heuristic [of "init_detector (Inl RuntimeError)" "''I hate this awful terrible mess''"]
       fallback_heuristic [of "init_detector (Inl RuntimeError)" "''good good bad''"]
       n p1 n1 p2 n2 p3 n3
  show ?thesis
    by simp
qed

lemma and_then_Inl: "and_then (Inl e) f = Inl e"
  by (simp add: and_then_def)

lemma and_then_Inr: "and_then (Inr x) f = f x"
  by (simp add: and_then_def)

text \<open>Outputs of the classifier on which an access of the block raises.\<close>

lemma malformed_outputs:
  "classify_emotion d (\<lambda>t. Inr (PList [])) t = Inl IndexError"
  "classify_emotion d (\<lambda>t. Inr PNone) t = Inl TypeError"
  "classify_emotion d (\<lambda>t. Inr (PList [PDict [(PStr ''score'', PNum 0.9)]])) t = Inl KeyError"
  "classify_emotion d (\<lambda>t. Inr (PList [PDict [(PStr ''label'', PNum 3), (PStr ''score'', PNum 0.9)]])) t = Inl AttributeError"
  "classify_emotion d (\<lambda>t. Inr (PList [PDict [(PStr ''label'', PStr ''joy'')]])) t = Inl KeyError"
  "classify_emotion (init_detector (Inr clf)) (\<lambda>t. Inr (PList [PDict [(PStr ''label'', PStr ''joy''), (PStr ''score'', PStr ''high'')]])) t = Inl TypeError"
  by (simp_all add: classify_emotion_def and_then_def getitem_def init_detector_def)

text \<open>A well-formed output is used: the fallback is not the only path.\<close>

lemma classifier_success_example:
  "detect_emotion
     (init_detector (Inr (\<lambda>t. Inr (PList [PDict [(PStr ''label'', PStr ''sadness''),
                                                   (PStr ''score'', PNum 0.85)]]))))
     ''I feel down today.'' =
   Inr \<lparr> emotion = ''sad'', confidence = 0.85, intensity = 0.85 \<rparr>"
proof -
  have "calculate_intensity ''I feel down today.'' 0.85 = Inr 0.85" by code_simp
  moreover have "lower ''sadness'' = ''sadness''" by code_simp
  ultimately show ?thesis
    by (simp add: detect_emotion_def init_detector_def classify_emotion_def and_then_def
        getitem_def dict_get_def)
qed

text \<open>
  C9. For every text, a classifier failure never propagates out of emotion detection:
  detection always returns an EmotionResult, and when the classifier could not be loaded,
  raises during inference, or returns an output on which the block raises, the result is
  the fallback heuristic's.
\<close>

theorem classifier_failure_contained:
  "(\<exists>r. detect_emotion d t = Inr r) \<and>
   (\<forall>e. detect_emotion (init_detector (Inl e)) t = Inr (basic_sentiment_analysis t)) \<and>
   (\<forall>clf e. classifier d = Some clf \<and> clf t = Inl e \<longrightarrow>
       detect_emotion d t = Inr (basic_sentiment_analysis t)) \<and>
   (\<forall>clf e. classifier d = Some clf \<and> classify_emotion d clf t = Inl e \<longrightarrow>
       detect_emotion d t = Inr (basic_sentiment_analysis t))"
proof -
  have 1: "\<exists>r. detect_emotion d t = Inr r"
    by (simp add: detect_emotion_def split: option.split sum.split)
  have 2: "detect_emotion (init_detector (Inl e)) t = Inr (basic_sentiment_analysis t)" for e
    by (simp add: detect_emotion_def init_detector_def)
  have 3: "detect_emotion d t = Inr (basic_sentiment_analysis t)"
    if "classifier d = Some clf" "clf t = Inl e" for clf e
    using that by (simp add: detect_emotion_def classify_emotion_def and_then_Inl)
  have 4: "detect_emotion d t = Inr (basic_sentiment_analysis t)"
    if "classifier d = Some clf" "classify_emotion d clf t = Inl e" for clf e
    using that by (simp add: detect_emotion_def)
  from 1 2 3 4 show ?thesis by blast
qed

text \<open>A classifier that raises, one that returns an empty list, and a failed load.\<close>

theorem classifier_failure_contained_witness:
  "classifier (init_detector (Inr (\<lambda>t. Inl RuntimeError))) = Some (\<lambda>t. Inl RuntimeError) \<and>
   detect_emotion (init_detector (Inr (\<lambda>t. Inl RuntimeError))) ''I hate this awful terrible mess'' =
     Inr \<lparr> emotion = ''angry'', confidence = 0.7, intensity = 0.6 \<rparr> \<and>
   classify_emotion (init_detector (Inr (\<lambda>t. Inr (PList [])))) (\<lambda>t. Inr (PList []))
      ''I hate this awful terrible mess'' = Inl IndexError \<and>
   detect_emotion (init_detector (Inr (\<lambda>t. Inr (PList [])))) ''I hate this awful terrible mess'' =
     Inr \<lparr> emotion = ''angry'', confidence = 0.7, intensity = 0.6 \<rparr> \<and>
   detect_emotion (init_detector (Inl RuntimeError)) ''I hate this awful terrible mess'' =
     Inr \<lparr> emotion = ''angry'', confidence = 0.7, intensity = 0.6 \<rparr>"
proof -
  let ?t = "''I hate this awful terrible mess''"
  let ?raising = "\<lambda>t::string. (Inl RuntimeError :: py_error + pyval)"
  let ?empty = "\<lambda>t::string. (Inr (PList []) :: py_error + pyval)"
  have b: "basic_sentiment_analysis ?t =
      \<lparr> emotion = ''angry'', confidence = 0.7, intensity = 0.6 \<rparr>"
    by code_simp
  have c1: "classifier (init_detector (Inr ?raising)) = Some ?raising"
    by (simp add: init_detector_def)
  have c2: "classifier (init_detector (Inr ?empty)) = Some ?empty"
    by (simp add: init_detector_def)
  have m: "classify_emotion (init_detector (Inr ?empty)) ?empty ?t = Inl IndexError"
    by (simp add: classify_emotion_def and_then_def)
  from classifier_failure_contained [of "init_detector (Inr ?raising)" ?t] c1
  have r1: "detect_emotion (init_detector (Inr ?raising)) ?t = Inr (basic_sentiment_analysis ?t)"
    by blast
  from classifier_failure_contained [of "init_detector (Inr ?empty)" ?t] c2 m
  have r2: "detect_emotion (init_detector (Inr ?empty)) ?t = Inr (basic_sentiment_analysis ?t)"
    by blast
  from classifier_failure_contained [of "init_detector (Inr ?empty)" ?t]
  have r3: "detect_emotion (init_detector (Inl RuntimeError)) ?t = Inr (basic_sentiment_analysis ?t)"
    by blast
  from r1 r2 r3 b c1 m show ?thesis by simp
qed

end
